theory Spec2Isabelle
  imports Complex_Main
begin

section \<open>Values shared by the plugin manager and the websocket handler\<close>

text \<open>
  The values that \<^verbatim>\<open>JSON.parse\<close> produces.  A number is a finite rational (the
  literals that overflow to an infinity are not represented); an object is the list of
  its properties, read with \<open>map_of\<close>.  A property that is \<^verbatim>\<open>undefined\<close> is the
  value \<open>None\<close> of an option.
\<close>

datatype json =
    JNull
  | JBool bool
  | JNum rat
  | JStr string
  | JArr "json list"
  | JObj "(string \<times> json) list"

text \<open>The result of a call into code outside the modelled files: it returns or it throws.\<close>

datatype 'a outcome = Returns 'a | Throws

text \<open>A template literal prints an undefined value as the word \<^verbatim>\<open>undefined\<close>.\<close>

definition str :: "string option \<Rightarrow> string" where
  "str s = (case s of None \<Rightarrow> ''undefined'' | Some t \<Rightarrow> t)"

section \<open>The plugin manager (plugins.ts)\<close>

subsection \<open>Records\<close>

text \<open>
  The platform object a plugin's factory returns.  \<open>load\<close> stamps name, config and
  version on it; \<open>pf_type\<close> is set by the plugin.
\<close>

record matterbridgePlatform =
  pf_type :: string
  pf_name :: "string option"
  pf_version :: "string option"
  pf_config :: "json option"

text \<open>
  \<^verbatim>\<open>RegisteredPlugin\<close>, with the fields plugins.ts reads and writes.  An optional field
  that is \<^verbatim>\<open>undefined\<close> is \<open>None\<close>.  The fields copied from a manifest are strings when
  they are present.
\<close>

record plugin =
  name :: "string option"
  path :: string
  ptype :: string
  version :: "string option"
  description :: "string option"
  author :: "string option"
  enabled :: "bool option"
  qrPairingCode :: "string option"
  manualPairingCode :: "string option"
  locked :: "bool option"
  error :: "bool option"
  loaded :: "bool option"
  started :: "bool option"
  configured :: "bool option"
  connected :: "bool option"
  platform :: "matterbridgePlatform option"
  registeredDevices :: "nat option"
  addedDevices :: "nat option"
  configJson :: "json option"
  schemaJson :: "json option"

text \<open>The truth value JavaScript gives an optional boolean: \<^verbatim>\<open>undefined\<close> and false are falsy.\<close>

definition truthy :: "bool option \<Rightarrow> bool" where
  "truthy b = (b = Some True)"

text \<open>
  The parsed package.json of a plugin: the fields plugins.ts reads.  A string that is
  empty is falsy, as an absent one is.
\<close>

record manifest =
  m_name :: "string option"
  m_version :: "string option"
  m_description :: "string option"
  m_author :: "string option"
  m_main :: "string option"

subsection \<open>What an operation does besides changing the record\<close>

datatype level = Debug | Info | Warn | Error

text \<open>
  The trace of one call: the lines it logs (the text of the source's template literal,
  without the colour codes) and the calls it makes to the platform, the file system and
  the host.
\<close>

datatype event =
    Log level string
  | ReadManifest string
  | ImportModule string string
  | LoadPluginConfig
  | CallFactory
  | LoadPluginSchema
  | OnStart "string option"
  | OnConfigure
  | OnShutdown "string option"
  | SavePluginConfig
  | RemoveAllBridgedDevices "string option"
  | AccessFile string

subsection \<open>configure\<close>

record configure_env =
  ce_onConfigure :: "unit outcome"
  ce_savePluginConfig :: "unit outcome"

definition configure :: "plugin \<Rightarrow> configure_env \<Rightarrow> plugin option \<times> plugin \<times> event list" where
  "configure p env =
    (if \<not> truthy (loaded p) then
       (None, p, [Log Error (''Plugin '' @ str (name p) @ '' not loaded'')])
     else if \<not> truthy (started p) then
       (None, p, [Log Error (''Plugin '' @ str (name p) @ '' not started'')])
     else if platform p = None then
       (None, p, [Log Error (''Plugin '' @ str (name p) @ '' no platform found'')])
     else if truthy (configured p) then
       (None, p, [Log Debug (''Plugin '' @ str (name p) @ '' already configured'')])
     else
       (case ce_onConfigure env of
          Throws \<Rightarrow>
            (None, p\<lparr>error := Some True\<rparr>,
             [Log Info (''Configuring plugin '' @ str (name p) @ '' type '' @ ptype p),
              OnConfigure,
              Log Error (''Failed to configure plugin '' @ str (name p))])
        | Returns _ \<Rightarrow>
            (let p1 = p\<lparr>configured := Some True\<rparr> in
             case ce_savePluginConfig env of
               Throws \<Rightarrow>
                 (None, p1\<lparr>error := Some True\<rparr>,
                  [Log Info (''Configuring plugin '' @ str (name p) @ '' type '' @ ptype p),
                   OnConfigure,
                   Log Info (''Configured plugin '' @ str (name p) @ '' type '' @ ptype p),
                   SavePluginConfig,
                   Log Error (''Failed to configure plugin '' @ str (name p))])
             | Returns _ \<Rightarrow>
                 (Some p1, p1,
                  [Log Info (''Configuring plugin '' @ str (name p) @ '' type '' @ ptype p),
                   OnConfigure,
                   Log Info (''Configured plugin '' @ str (name p) @ '' type '' @ ptype p),
                   SavePluginConfig]))))"

subsection \<open>start\<close>

record start_env =
  se_onStart :: "unit outcome"
  se_configure :: configure_env

definition start ::
  "plugin \<Rightarrow> string option \<Rightarrow> bool \<Rightarrow> start_env \<Rightarrow> plugin option \<times> plugin \<times> event list" where
  "start p message cfg env =
    (if \<not> truthy (loaded p) then
       (None, p, [Log Error (''Plugin '' @ str (name p) @ '' not loaded'')])
     else if platform p = None then
       (None, p, [Log Error (''Plugin '' @ str (name p) @ '' no platform found'')])
     else if truthy (started p) then
       (None, p, [Log Error (''Plugin '' @ str (name p) @ '' already started'')])
     else
       (case se_onStart env of
          Throws \<Rightarrow>
            (None, p\<lparr>error := Some True\<rparr>,
             [Log Info (''Starting plugin '' @ str (name p) @ '' type '' @ ptype p),
              OnStart message,
              Log Error (''Failed to start plugin '' @ str (name p))])
        | Returns _ \<Rightarrow>
            (let p1 = p\<lparr>started := Some True\<rparr>;
                 evs = [Log Info (''Starting plugin '' @ str (name p) @ '' type '' @ ptype p),
                        OnStart message,
                        Log Info (''Started plugin '' @ str (name p) @ '' type '' @ ptype p)]
             in if cfg then
                  (case configure p1 (se_configure env) of
                     (_, p2, evs2) \<Rightarrow> (Some p2, p2, evs @ evs2))
                else (Some p1, p1, evs))))"

subsection \<open>shutdown\<close>

record shutdown_env =
  sh_onShutdown :: "unit outcome"
  sh_removeAllBridgedDevices :: "unit outcome"

definition shutdown ::
  "plugin \<Rightarrow> string option \<Rightarrow> bool \<Rightarrow> shutdown_env \<Rightarrow> plugin option \<times> plugin \<times> event list" where
  "shutdown p reason removeAllDevices env =
    (if \<not> truthy (loaded p) then
       (None, p, [Log Debug (''Shutting down plugin '' @ str (name p)),
                  Log Debug (''*Plugin '' @ str (name p) @ '' not loaded'')])
     else if \<not> truthy (started p) then
       (None, p, [Log Debug (''Shutting down plugin '' @ str (name p)),
                  Log Debug (''*Plugin '' @ str (name p) @ '' not started'')])
     else if \<not> truthy (configured p) then
       (None, p, [Log Debug (''Shutting down plugin '' @ str (name p)),
                  Log Debug (''*Plugin '' @ str (name p) @ '' not configured'')])
     else if platform p = None then
       (None, p, [Log Debug (''Shutting down plugin '' @ str (name p)),
                  Log Debug (''*Plugin '' @ str (name p) @ '' no platform found'')])
     else
       (case sh_onShutdown env of
          Throws \<Rightarrow>
            (None, p,
             [Log Debug (''Shutting down plugin '' @ str (name p)),
              Log Info (''Shutting down plugin '' @ str (name p) @ '': '' @ str reason @ ''...''),
              OnShutdown reason,
              Log Error (''Failed to shut down plugin '' @ str (name p))])
        | Returns _ \<Rightarrow>
            (let p1 = p\<lparr>locked := None, error := None, loaded := None, started := None,
                        configured := None, connected := None, platform := None,
                        registeredDevices := None, addedDevices := None\<rparr>;
                 evs = [Log Debug (''Shutting down plugin '' @ str (name p)),
                        Log Info (''Shutting down plugin '' @ str (name p) @ '': '' @ str reason @ ''...''),
                        OnShutdown reason]
             in if removeAllDevices then
                  (case sh_removeAllBridgedDevices env of
                     Throws \<Rightarrow>
                       (None, p1,
                        evs @ [Log Info (''Removing all devices for plugin '' @ str (name p) @ '': '' @ str reason @ ''...''),
                               RemoveAllBridgedDevices (name p),
                               Log Error (''Failed to shut down plugin '' @ str (name p))])
                   | Returns _ \<Rightarrow>
                       (Some p1, p1,
                        evs @ [Log Info (''Removing all devices for plugin '' @ str (name p) @ '': '' @ str reason @ ''...''),
                               RemoveAllBridgedDevices (name p),
                               Log Info (''Shutdown of plugin '' @ str (name p) @ '' completed'')]))
                else
                  (Some p1, p1,
                   evs @ [Log Info (''Shutdown of plugin '' @ str (name p) @ '' completed'')]))))"

subsection \<open>load\<close>

text \<open>
  What the imported module exports: nothing under \<^verbatim>\<open>default\<close>, or a factory.  The
  factory is called with the host, a logger and the configuration; it throws or returns
  a platform, \<open>None\<close> when it returns nothing an assignment can be made on.
\<close>

datatype module = NoDefaultExport | DefaultExport "json \<Rightarrow> matterbridgePlatform option outcome"

text \<open>
  The calls \<open>load\<close> makes outside plugins.ts, each with its result: reading and parsing
  the manifest at \<open>plugin.path\<close>, the dynamic import, the host's
  \<^verbatim>\<open>loadPluginConfig\<close> and \<^verbatim>\<open>loadPluginSchema\<close>, and the start that may follow.
\<close>

record load_env =
  le_manifest :: "manifest outcome"
  le_import :: "module outcome"
  le_loadPluginConfig :: "json outcome"
  le_loadPluginSchema :: "json outcome"
  le_start :: start_env

text \<open>The catch block of \<open>load\<close>: the error is logged and the record marked.\<close>

definition load_failed ::
  "plugin \<Rightarrow> event list \<Rightarrow> matterbridgePlatform option \<times> plugin \<times> event list" where
  "load_failed p evs =
     (None, p\<lparr>error := Some True\<rparr>, evs @ [Log Error (''Failed to load plugin '' @ str (name p))])"

definition load ::
  "plugin \<Rightarrow> bool \<Rightarrow> string \<Rightarrow> load_env \<Rightarrow> matterbridgePlatform option \<times> plugin \<times> event list" where
  "load p strt message env =
    (if \<not> truthy (enabled p) then
       (None, p, [Log Error (''Plugin '' @ str (name p) @ '' not enabled'')])
     else if platform p \<noteq> None then
       (platform p, p, [Log Error (''Plugin '' @ str (name p) @ '' already loaded'')])
     else
       (let evs0 = [Log Info (''Loading plugin '' @ str (name p) @ '' type '' @ ptype p),
                    ReadManifest (path p)]
        in case le_manifest env of
          Throws \<Rightarrow> load_failed p evs0
        | Returns packageJson \<Rightarrow>
           (case m_main packageJson of
              None \<Rightarrow> load_failed p evs0
            | Some entry \<Rightarrow>
               (let evs1 = evs0 @ [Log Debug (''Importing plugin '' @ str (name p)),
                                   ImportModule (path p) entry]
                in case le_import env of
                  Throws \<Rightarrow> load_failed p evs1
                | Returns NoDefaultExport \<Rightarrow>
                    (None, p\<lparr>error := Some True\<rparr>,
                     evs1 @ [Log Debug (''Imported plugin '' @ str (name p)),
                             Log Error (''Plugin '' @ str (name p) @ '' does not provide a default export'')])
                | Returns (DefaultExport factory) \<Rightarrow>
                   (let evs2 = evs1 @ [Log Debug (''Imported plugin '' @ str (name p)), LoadPluginConfig]
                    in case le_loadPluginConfig env of
                      Throws \<Rightarrow> load_failed p evs2
                    | Returns config \<Rightarrow>
                       (case factory config of
                          Throws \<Rightarrow> load_failed p (evs2 @ [CallFactory])
                        | Returns None \<Rightarrow> load_failed p (evs2 @ [CallFactory])
                        | Returns (Some pf0) \<Rightarrow>
                           (let pf = pf0\<lparr>pf_name := m_name packageJson, pf_config := Some config,
                                          pf_version := m_version packageJson\<rparr>;
                                p1 = p\<lparr>name := m_name packageJson,
                                       description := Some (case m_description packageJson of
                                                              None \<Rightarrow> ''No description'' | Some d \<Rightarrow> d),
                                       version := m_version packageJson,
                                       author := Some (case m_author packageJson of
                                                         None \<Rightarrow> ''Unknown'' | Some a \<Rightarrow> a),
                                       ptype := pf_type pf,
                                       platform := Some pf,
                                       loaded := Some True,
                                       registeredDevices := Some 0,
                                       addedDevices := Some 0,
                                       configJson := Some config\<rparr>;
                                evs3 = evs2 @ [CallFactory, LoadPluginSchema]
                            in case le_loadPluginSchema env of
                              Throws \<Rightarrow> load_failed p1 evs3
                            | Returns schema \<Rightarrow>
                               (let p2 = p1\<lparr>schemaJson := Some schema\<rparr>;
                                    evs4 = evs3 @ [Log Info (''Loaded plugin '' @ str (name p2) @ '' type '' @ pf_type pf)]
                                in if strt then
                                     (case start p2 (Some message) False (le_start env) of
                                        (_, p3, evs5) \<Rightarrow> (Some pf, p3, evs4 @ evs5))
                                   else (Some pf, p2, evs4)))))))))"

subsection \<open>The record add creates, and sequences of lifecycle calls\<close>

text \<open>The object literal \<open>add\<close> stores for a manifest found at a path.\<close>

definition new_plugin :: "manifest \<Rightarrow> string \<Rightarrow> plugin" where
  "new_plugin packageJson packageJsonPath =
     \<lparr>name = m_name packageJson, path = packageJsonPath, ptype = [],
      version = m_version packageJson, description = m_description packageJson,
      author = m_author packageJson, enabled = Some True,
      qrPairingCode = None, manualPairingCode = None, locked = None, error = None,
      loaded = None, started = None, configured = None, connected = None,
      platform = None, registeredDevices = None, addedDevices = None,
      configJson = None, schemaJson = None\<rparr>"

text \<open>One lifecycle call on a record, with its arguments and the results of its outside calls.\<close>

datatype lifecycle_call =
    Load bool string load_env
  | Start "string option" bool start_env
  | Configure configure_env
  | Shutdown "string option" bool shutdown_env

fun perform :: "plugin \<Rightarrow> lifecycle_call \<Rightarrow> plugin" where
  "perform p (Load strt message env) = fst (snd (load p strt message env))"
| "perform p (Start message cfg env) = fst (snd (start p message cfg env))"
| "perform p (Configure env) = fst (snd (configure p env))"
| "perform p (Shutdown reason removeAllDevices env) = fst (snd (shutdown p reason removeAllDevices env))"

definition perform_all :: "plugin \<Rightarrow> lifecycle_call list \<Rightarrow> plugin" where
  "perform_all p calls = foldl perform p calls"

text \<open>
  The invariant of the lifecycle flags: configured needs started, started needs loaded,
  and no flag is set on a record without a platform.
\<close>

definition lifecycle_inv :: "plugin \<Rightarrow> bool" where
  "lifecycle_inv p =
     ((truthy (configured p) \<longrightarrow> truthy (started p)) \<and>
      (truthy (started p) \<longrightarrow> truthy (loaded p)) \<and>
      (platform p = None \<longrightarrow>
         \<not> truthy (loaded p) \<and> \<not> truthy (started p) \<and> \<not> truthy (configured p)))"

text \<open>The four guards of \<open>shutdown\<close>.\<close>

definition shutdown_ready :: "plugin \<Rightarrow> bool" where
  "shutdown_ready p =
     (truthy (loaded p) \<and> truthy (started p) \<and> truthy (configured p) \<and> platform p \<noteq> None)"

text \<open>Whether a trace calls the platform's start hook.\<close>

fun is_OnStart :: "event \<Rightarrow> bool" where
  "is_OnStart (OnStart _) = True"
| "is_OnStart _ = False"

fun is_OnShutdown :: "event \<Rightarrow> bool" where
  "is_OnShutdown (OnShutdown _) = True"
| "is_OnShutdown _ = False"

subsection \<open>The registry and saveToStorage\<close>

text \<open>
  \<^verbatim>\<open>_plugins\<close> is a Map keyed by name that keeps insertion order: the list of its
  entries.
\<close>

type_synonym registry = "(string \<times> plugin) list"

definition array :: "registry \<Rightarrow> plugin list" where
  "array reg = map snd reg"

text \<open>A number printed in a template literal.\<close>

fun decimal :: "nat \<Rightarrow> string" where
  "decimal n = (if n < 10 then [char_of (48 + n)] else decimal (n div 10) @ [char_of (48 + n mod 10)])"

declare decimal.simps [simp del]

text \<open>
  \<open>saveToStorage\<close> builds one object literal per record and hands the array to
  \<^verbatim>\<open>nodeContext.set\<close> under the key \<^verbatim>\<open>plugins\<close>.  The call into the store returns or
  throws (\<open>stored\<close>).  The result is what the function returns, the array it handed to
  the store, and its log.  A property the literal does not have is \<open>None\<close>.
\<close>

definition saveToStorage :: "registry \<Rightarrow> unit outcome \<Rightarrow> nat outcome \<times> plugin list \<times> event list" where
  "saveToStorage reg stored =
    (let plugins = map (\<lambda>plugin.
            \<lparr>name = name plugin, path = path plugin, ptype = ptype plugin,
             version = version plugin, description = description plugin,
             author = author plugin, enabled = enabled plugin,
             qrPairingCode = qrPairingCode plugin,
             manualPairingCode = manualPairingCode plugin,
             locked = None, error = None, loaded = None, started = None,
             configured = None, connected = None, platform = None,
             registeredDevices = None, addedDevices = None,
             configJson = None, schemaJson = None\<rparr>) (array reg)
     in case stored of
          Throws \<Rightarrow> (Throws, plugins, [])
        | Returns _ \<Rightarrow>
            (Returns (length plugins), plugins,
             [Log Debug (''Saved '' @ decimal (length plugins) @ '' plugins to storage'')]))"

subsection \<open>resolve\<close>

text \<open>\<^verbatim>\<open>String.prototype.endsWith\<close>.\<close>

definition endsWith :: "string \<Rightarrow> string \<Rightarrow> bool" where
  "endsWith s e = (length e \<le> length s \<and> drop (length s - length e) s = e)"

text \<open>
  What \<open>resolve\<close> uses from outside plugins.ts: Node's \<^verbatim>\<open>path.join\<close> and
  \<^verbatim>\<open>path.resolve\<close>, the host's global modules directory, and the file system.  For a
  path, \<open>files\<close> is \<open>None\<close> when nothing is there (\<^verbatim>\<open>fs.access\<close> rejects, and so does
  \<^verbatim>\<open>fs.readFile\<close>), \<open>Some None\<close> when a file is there and reading or parsing it throws
  (or it parses to null, whose property cannot be read), and \<open>Some (Some m)\<close> when it
  parses to the manifest \<open>m\<close>.
\<close>

record resolve_env =
  path_join :: "string \<Rightarrow> string \<Rightarrow> string"
  path_resolve :: "string \<Rightarrow> string"
  globalModulesDirectory :: string
  files :: "string \<Rightarrow> manifest option option"

text \<open>\<^verbatim>\<open>!packageJson.name\<close>: the name is absent or the empty string.\<close>

definition no_name :: "manifest \<Rightarrow> bool" where
  "no_name packageJson = (m_name packageJson = None \<or> m_name packageJson = Some [])"

definition resolve :: "resolve_env \<Rightarrow> string \<Rightarrow> string option \<times> event list" where
  "resolve env pluginPath0 =
    (let pluginPath = (if \<not> endsWith pluginPath0 ''package.json''
                       then path_join env pluginPath0 ''package.json'' else pluginPath0);
         packageJsonPath0 = path_resolve env pluginPath;
         evs0 = [Log Debug (''Resolving plugin path '' @ packageJsonPath0), AccessFile packageJsonPath0];
         (packageJsonPath, evs1) =
            (if files env packageJsonPath0 = None then
               (path_join env (globalModulesDirectory env) pluginPath,
                evs0 @ [Log Debug (''Package.json not found at '' @ packageJsonPath0),
                        Log Debug (''Trying at '' @ path_join env (globalModulesDirectory env) pluginPath)])
             else (packageJsonPath0, evs0))
     in case files env packageJsonPath of
          Some (Some packageJson) \<Rightarrow>
            (if no_name packageJson then
               (None, evs1 @ [ReadManifest packageJsonPath,
                              Log Debug (''Package.json name not found at '' @ packageJsonPath)])
             else
               (Some packageJsonPath,
                evs1 @ [ReadManifest packageJsonPath,
                        Log Debug (''Resolved plugin path '' @ pluginPath @ '': '' @ packageJsonPath)]))
        | _ \<Rightarrow>
            (None, evs1 @ [ReadManifest packageJsonPath,
                           Log Error (''Failed to resolve plugin path '' @ pluginPath)]))"

text \<open>
  The resolver as the specification words it: of the candidate and the candidate under
  the global modules directory, the first whose manifest can be read and parsed and
  declares a name.
\<close>

definition qualifies :: "resolve_env \<Rightarrow> string \<Rightarrow> bool" where
  "qualifies env p = (case files env p of Some (Some packageJson) \<Rightarrow> \<not> no_name packageJson | _ \<Rightarrow> False)"

definition resolve_spec :: "resolve_env \<Rightarrow> string \<Rightarrow> string option" where
  "resolve_spec env nameOrPath =
    (let candidate = (if \<not> endsWith nameOrPath ''package.json''
                      then path_join env nameOrPath ''package.json'' else nameOrPath)
     in find (qualifies env)
          [path_resolve env candidate, path_join env (globalModulesDirectory env) candidate])"

section \<open>The websocket handler (matterbridgeWebsocket.ts)\<close>

subsection \<open>Reading the parsed message\<close>

text \<open>
  A property of a value that is not null: an object has the properties it lists, every
  other value has none of the properties the handler reads.
\<close>

definition get_prop :: "json \<Rightarrow> string \<Rightarrow> json option" where
  "get_prop v k = (case v of JObj fs \<Rightarrow> map_of fs k | _ \<Rightarrow> None)"

text \<open>\<^verbatim>\<open>data.params.k\<close>, read after the validation has found \<^verbatim>\<open>data.params\<close> an object.\<close>

definition param :: "json \<Rightarrow> string \<Rightarrow> json option" where
  "param data k = (case get_prop data ''params'' of Some ps \<Rightarrow> get_prop ps k | None \<Rightarrow> None)"

text \<open>
  Strict equality of two values that were parsed or stored apart: primitives are
  compared by value, and an array or an object is equal to no other.
\<close>

definition strict_eq :: "json option \<Rightarrow> json option \<Rightarrow> bool" where
  "strict_eq a b =
     (case (a, b) of
        (None, None) \<Rightarrow> True
      | (Some JNull, Some JNull) \<Rightarrow> True
      | (Some (JBool x), Some (JBool y)) \<Rightarrow> x = y
      | (Some (JNum x), Some (JNum y)) \<Rightarrow> x = y
      | (Some (JStr x), Some (JStr y)) \<Rightarrow> x = y
      | _ \<Rightarrow> False)"

text \<open>The truth value JavaScript gives a value.\<close>

definition truthy_json :: "json option \<Rightarrow> bool" where
  "truthy_json v =
     (case v of
        None \<Rightarrow> False
      | Some JNull \<Rightarrow> False
      | Some (JBool b) \<Rightarrow> b
      | Some (JNum n) \<Rightarrow> n \<noteq> 0
      | Some (JStr t) \<Rightarrow> t \<noteq> []
      | Some _ \<Rightarrow> True)"

subsection \<open>The validators of utils/utils.js\<close>

text \<open>
  Modelled from the spec: \<^verbatim>\<open>isValidNumber\<close>, \<^verbatim>\<open>isValidString\<close> and
  \<^verbatim>\<open>isValidObject\<close> are imported from utils/utils.js, which is not among the sources.
  The specification asks for an id that is a valid number, for dst, src and method that
  are non-empty strings, for params that is an object, and for parameters that are
  strings of a minimum length or numbers of a minimum value.
\<close>

definition isValidNumber :: "json option \<Rightarrow> rat option \<Rightarrow> bool" where
  "isValidNumber v minimum =
     (case v of
        Some (JNum n) \<Rightarrow> (case minimum of None \<Rightarrow> True | Some m \<Rightarrow> m \<le> n)
      | _ \<Rightarrow> False)"

definition isValidString :: "json option \<Rightarrow> nat option \<Rightarrow> bool" where
  "isValidString v minLength =
     (case v of
        Some (JStr t) \<Rightarrow> (case minLength of None \<Rightarrow> t \<noteq> [] | Some m \<Rightarrow> m \<le> length t)
      | _ \<Rightarrow> False)"

definition isValidObject :: "json option \<Rightarrow> bool" where
  "isValidObject v = (case v of Some (JObj _) \<Rightarrow> True | _ \<Rightarrow> False)"

subsection \<open>The host\<close>

text \<open>
  Modelled from the spec: \<^verbatim>\<open>spawnCommand\<close> is a method of the host, which is not
  among the sources.  The process-spawn collaborator resolves with its output or
  rejects with an error, whose message is a string.
\<close>

datatype spawn_result = Resolves json | Rejects string

text \<open>
  What the handler reads of a bridged device: its plugin and endpoint number, the
  descriptor \<^verbatim>\<open>/api/devices\<close> pushes for it, and what the loops of
  \<^verbatim>\<open>/api/clusters\<close> collect from it and its child endpoints.
\<close>

record device =
  dv_plugin :: "string option"
  dv_number :: "rat option"
  dv_api :: json
  dv_deviceName :: "string option"
  dv_serialNumber :: "string option"
  dv_deviceTypes :: "json list"
  dv_clusters :: "json list"

text \<open>
  What the handler reads of a registered plugin: the values of the platform's
  \<^verbatim>\<open>selectDevice\<close> map (\<open>None\<close> without a platform or without the map) and of its
  \<^verbatim>\<open>selectEntity\<close> map (reading them throws when the map is missing), each in the
  order the sort by name leaves them.
\<close>

record plugin_view =
  pv_selectDevice :: "json list option"
  pv_selectEntity :: "json list outcome"

text \<open>
  The state of the host the handler reads.  \<open>nodeContext\<close> is the store, when there is
  one, as the value it holds for a key; \<open>settings\<close> and \<open>baseRegisteredPlugins\<close> are
  the objects the host assembles for \<^verbatim>\<open>/api/settings\<close> and \<^verbatim>\<open>/api/plugins\<close>,
  unless assembling them throws.
\<close>

record host =
  nodeContext :: "(string \<Rightarrow> json option) option"
  spawnCommand :: "string \<Rightarrow> json option list \<Rightarrow> spawn_result"
  settings :: "json outcome"
  baseRegisteredPlugins :: "json outcome"
  devices :: "device list"
  plugins :: "string \<Rightarrow> plugin_view option"

text \<open>\<^verbatim>\<open>nodeContext.get(key, defaultValue)\<close>: the stored value, or the default.\<close>

definition nodeContext_get :: "(string \<Rightarrow> json option) \<Rightarrow> string \<Rightarrow> json \<Rightarrow> json" where
  "nodeContext_get ctx key defaultValue = (case ctx key of None \<Rightarrow> defaultValue | Some v \<Rightarrow> v)"

subsection \<open>Envelopes and effects\<close>

text \<open>
  The object the handler gives to \<^verbatim>\<open>JSON.stringify\<close> and \<^verbatim>\<open>client.send\<close>.  A
  property that is undefined (\<open>None\<close>) is left out of the text sent.  \<open>r_more\<close> holds
  the properties some methods add.
\<close>

record envelope =
  r_id :: "json option"
  r_method :: "json option"
  r_src :: string
  r_dst :: "json option"
  r_response :: "json option"
  r_error :: "string option"
  r_more :: "(string \<times> json option) list"

text \<open>
  What one call of the handler does: the envelopes it sends, the envelopes the
  callbacks of a spawned command send later, its log, and its calls to the host.
\<close>

datatype ws_effect =
    Send envelope
  | SendLater envelope
  | WsLog level string
  | SpawnCommand string "json option list"
  | RestartProcess
  | ShutdownProcess

text \<open>
  The four properties every object the handler sends starts with:
  \<^verbatim>\<open>{ id: data.id, method: data.method, src: 'Matterbridge', dst: data.src, ... }\<close>.
\<close>

definition reply :: "json \<Rightarrow> envelope" where
  "reply data =
     \<lparr>r_id = get_prop data ''id'', r_method = get_prop data ''method'', r_src = ''Matterbridge'',
      r_dst = get_prop data ''src'', r_response = None, r_error = None, r_more = []\<rparr>"

text \<open>The catch block at the end of the handler.\<close>

definition caught :: "ws_effect list" where
  "caught = [WsLog Error ''Error parsing message from websocket client:'']"

text \<open>The condition under which the handler rejects the message.\<close>

definition invalid_message :: "json \<Rightarrow> bool" where
  "invalid_message data =
     (\<not> isValidNumber (get_prop data ''id'') None \<or>
      \<not> isValidString (get_prop data ''dst'') None \<or>
      \<not> isValidString (get_prop data ''src'') None \<or>
      \<not> isValidString (get_prop data ''method'') None \<or>
      \<not> isValidObject (get_prop data ''params'') \<or>
      get_prop data ''dst'' \<noteq> Some (JStr ''Matterbridge''))"

subsection \<open>The methods\<close>

definition api_login :: "host \<Rightarrow> json \<Rightarrow> ws_effect list" where
  "api_login host data =
     (case nodeContext host of
        None \<Rightarrow>
          [WsLog Error ''Login nodeContext not found'',
           Send ((reply data)\<lparr>r_error := Some ''Internal error: nodeContext not found''\<rparr>)]
      | Some ctx \<Rightarrow>
          (let storedPassword = nodeContext_get ctx ''password'' (JStr [])
           in if storedPassword = JStr [] \<or>
                 strict_eq (Some storedPassword) (param data ''password'') then
                [WsLog Debug ''Login password valid'',
                 Send ((reply data)\<lparr>r_response := Some (JObj [(''valid'', JBool True)])\<rparr>)]
              else
                [WsLog Debug ''Error wrong password'',
                 Send ((reply data)\<lparr>r_error := Some ''Wrong password''\<rparr>)]))"

text \<open>The two callbacks of a spawned command: one of them sends, after the handler has returned.\<close>

definition spawned :: "host \<Rightarrow> json \<Rightarrow> json option list \<Rightarrow> ws_effect list" where
  "spawned host data args =
     [SpawnCommand ''npm'' args,
      SendLater (case spawnCommand host ''npm'' args of
                   Resolves response \<Rightarrow> (reply data)\<lparr>r_response := Some response\<rparr>
                 | Rejects message \<Rightarrow> (reply data)\<lparr>r_error := Some message\<rparr>)]"

definition api_install :: "host \<Rightarrow> json \<Rightarrow> ws_effect list" where
  "api_install host data =
     (if \<not> isValidString (param data ''packageName'') (Some 10) then
        [Send ((reply data)\<lparr>r_error := Some ''Wrong parameter packageName in /api/install''\<rparr>)]
      else
        spawned host data
          [Some (JStr ''install''), Some (JStr ''-g''), param data ''packageName'',
           Some (JStr ''--omit=dev''), Some (JStr ''--verbose'')])"

definition api_uninstall :: "host \<Rightarrow> json \<Rightarrow> ws_effect list" where
  "api_uninstall host data =
     (if \<not> isValidString (param data ''packageName'') (Some 10) then
        [Send ((reply data)\<lparr>r_error := Some ''Wrong parameter packageName in /api/uninstall''\<rparr>)]
      else
        spawned host data
          [Some (JStr ''uninstall''), Some (JStr ''-g''), param data ''packageName'',
           Some (JStr ''--verbose'')])"

definition api_settings :: "host \<Rightarrow> json \<Rightarrow> ws_effect list" where
  "api_settings host data =
     (case settings host of
        Throws \<Rightarrow> caught
      | Returns response \<Rightarrow> [Send ((reply data)\<lparr>r_response := Some response\<rparr>)])"

definition api_plugins :: "host \<Rightarrow> json \<Rightarrow> ws_effect list" where
  "api_plugins host data =
     (case baseRegisteredPlugins host of
        Throws \<Rightarrow> caught
      | Returns response \<Rightarrow> [Send ((reply data)\<lparr>r_response := Some response\<rparr>)])"

definition api_devices :: "host \<Rightarrow> json \<Rightarrow> ws_effect list" where
  "api_devices host data =
     (let listed = filter (\<lambda>device.
             \<not> (truthy_json (param data ''pluginName'') \<and>
                \<not> strict_eq (param data ''pluginName'') (map_option JStr (dv_plugin device))))
           (devices host)
      in [Send ((reply data)\<lparr>r_response := Some (JArr (map dv_api listed))\<rparr>)])"

definition api_clusters :: "host \<Rightarrow> json \<Rightarrow> ws_effect list" where
  "api_clusters host data =
     (if \<not> isValidString (param data ''plugin'') (Some 10) then
        [Send ((reply data)\<lparr>r_error := Some ''Wrong parameter plugin in /api/clusters''\<rparr>)]
      else if \<not> isValidNumber (param data ''endpoint'') (Some 1) then
        [Send ((reply data)\<lparr>r_error := Some ''Wrong parameter endpoint in /api/clusters''\<rparr>)]
      else
        (let matching = filter (\<lambda>device.
                strict_eq (param data ''plugin'') (map_option JStr (dv_plugin device)) \<and>
                strict_eq (param data ''endpoint'') (map_option JNum (dv_number device)))
              (devices host);
             deviceName = (if matching = [] then []
                           else case dv_deviceName (last matching) of
                                  None \<Rightarrow> ''Unknown'' | Some n \<Rightarrow> n);
             serialNumber = (if matching = [] then []
                             else case dv_serialNumber (last matching) of
                                    None \<Rightarrow> ''Unknown'' | Some n \<Rightarrow> n);
             deviceTypes = (if matching = [] then [] else dv_deviceTypes (last matching))
         in [Send ((reply data)
               \<lparr>r_response := Some (JArr (concat (map dv_clusters matching))),
                r_more := [(''plugin'', param data ''plugin''),
                           (''deviceName'', Some (JStr deviceName)),
                           (''serialNumber'', Some (JStr serialNumber)),
                           (''endpoint'', param data ''endpoint''),
                           (''deviceTypes'', Some (JArr deviceTypes))]\<rparr>)]))"

text \<open>\<^verbatim>\<open>this.plugins.get(data.params.plugin)\<close>: the registry is keyed by strings.\<close>

definition plugins_get :: "host \<Rightarrow> json option \<Rightarrow> plugin_view option" where
  "plugins_get host k = (case k of Some (JStr n) \<Rightarrow> plugins host n | _ \<Rightarrow> None)"

definition api_select :: "host \<Rightarrow> json \<Rightarrow> ws_effect list" where
  "api_select host data =
     (if \<not> isValidString (param data ''plugin'') (Some 10) then
        [Send ((reply data)\<lparr>r_error := Some ''Wrong parameter plugin in /api/select''\<rparr>)]
      else
        (case plugins_get host (param data ''plugin'') of
           None \<Rightarrow> [Send ((reply data)\<lparr>r_error := Some ''Plugin not found in /api/select''\<rparr>)]
         | Some plugin \<Rightarrow>
             [Send ((reply data)
                \<lparr>r_response := Some (JArr (case pv_selectDevice plugin of
                                             None \<Rightarrow> [] | Some vs \<Rightarrow> vs)),
                 r_more := [(''plugin'', param data ''plugin'')]\<rparr>)]))"

definition api_select_entities :: "host \<Rightarrow> json \<Rightarrow> ws_effect list" where
  "api_select_entities host data =
     (if \<not> isValidString (param data ''plugin'') (Some 10) then
        [Send ((reply data)\<lparr>r_error := Some ''Wrong parameter plugin in /api/select/entities''\<rparr>)]
      else
        (case plugins_get host (param data ''plugin'') of
           None \<Rightarrow>
             [Send ((reply data)\<lparr>r_error := Some ''Plugin not found in /api/select/entities''\<rparr>)]
         | Some plugin \<Rightarrow>
             (case pv_selectDevice plugin of
                None \<Rightarrow>
                  [Send ((reply data)
                     \<lparr>r_response := Some (JArr []),
                      r_more := [(''plugin'', param data ''plugin'')]\<rparr>)]
              | Some _ \<Rightarrow>
                  (case pv_selectEntity plugin of
                     Throws \<Rightarrow> caught
                   | Returns vs \<Rightarrow>
                       [Send ((reply data)
                          \<lparr>r_response := Some (JArr vs),
                           r_more := [(''plugin'', param data ''plugin'')]\<rparr>)]))))"

subsection \<open>wsMessageHandler\<close>

text \<open>
  The handler, given what \<^verbatim>\<open>JSON.parse\<close> made of the message: \<open>None\<close> when it threw.
  Reading \<^verbatim>\<open>data.id\<close> of null throws too.  The whole body stands in one
  \<^verbatim>\<open>try\<close>, so every exception ends in the catch block and the handler returns.
\<close>

definition wsMessageHandler :: "host \<Rightarrow> json option \<Rightarrow> ws_effect list" where
  "wsMessageHandler host parsed =
     (case parsed of
        None \<Rightarrow> caught
      | Some JNull \<Rightarrow> caught
      | Some data \<Rightarrow>
          if invalid_message data then
            [WsLog Error ''Invalid message from websocket client'',
             Send ((reply data)\<lparr>r_error := Some ''Invalid message''\<rparr>)]
          else
            WsLog Debug ''Received message from websocket client'' #
            (if get_prop data ''method'' = Some (JStr ''ping'') then
               [Send ((reply data)\<lparr>r_response := Some (JStr ''pong'')\<rparr>)]
             else if get_prop data ''method'' = Some (JStr ''/api/login'') then api_login host data
             else if get_prop data ''method'' = Some (JStr ''/api/install'') then api_install host data
             else if get_prop data ''method'' = Some (JStr ''/api/uninstall'') then api_uninstall host data
             else if get_prop data ''method'' = Some (JStr ''/api/restart'') then [RestartProcess]
             else if get_prop data ''method'' = Some (JStr ''/api/shutdown'') then [ShutdownProcess]
             else if get_prop data ''method'' = Some (JStr ''/api/settings'') then api_settings host data
             else if get_prop data ''method'' = Some (JStr ''/api/plugins'') then api_plugins host data
             else if get_prop data ''method'' = Some (JStr ''/api/devices'') then api_devices host data
             else if get_prop data ''method'' = Some (JStr ''/api/clusters'') then api_clusters host data
             else if get_prop data ''method'' = Some (JStr ''/api/select'') then api_select host data
             else if get_prop data ''method'' = Some (JStr ''/api/select/entities'') then
               api_select_entities host data
             else
               [WsLog Error ''Invalid method from websocket client'',
                Send ((reply data)\<lparr>r_error := Some ''Invalid method''\<rparr>)]))"

text \<open>The envelopes of a call, in order: those sent at once and those sent later.\<close>

fun envelopes :: "ws_effect list \<Rightarrow> envelope list" where
  "envelopes [] = []"
| "envelopes (Send r # es) = r # envelopes es"
| "envelopes (SendLater r # es) = r # envelopes es"
| "envelopes (_ # es) = envelopes es"

text \<open>The methods the handler routes.\<close>

definition methods :: "string list" where
  "methods =
     [''ping'', ''/api/login'', ''/api/install'', ''/api/uninstall'', ''/api/restart'',
      ''/api/shutdown'', ''/api/settings'', ''/api/plugins'', ''/api/devices'',
      ''/api/clusters'', ''/api/select'', ''/api/select/entities'']"

text \<open>
  An envelope answers a request: it repeats the request's id and method, comes from the
  host, goes to the request's source, and has a response or an error, not both.
\<close>

definition echoes :: "json \<Rightarrow> envelope \<Rightarrow> bool" where
  "echoes data r =
     (r_id r = get_prop data ''id'' \<and> r_method r = get_prop data ''method'' \<and>
      r_src r = ''Matterbridge'' \<and> r_dst r = get_prop data ''src'' \<and>
      (r_response r = None) \<noteq> (r_error r = None))"

section \<open>Example values\<close>

definition example_manifest :: manifest where
  "example_manifest =
     \<lparr>m_name = Some ''matterbridge-example'', m_version = Some ''1.0.0'',
      m_description = None, m_author = None, m_main = Some ''dist/index.js''\<rparr>"

definition example_platform :: matterbridgePlatform where
  "example_platform =
     \<lparr>pf_type = ''DynamicPlatform'', pf_name = None, pf_version = None, pf_config = None\<rparr>"

definition hooks_return :: start_env where
  "hooks_return =
     \<lparr>se_onStart = Returns (),
      se_configure = \<lparr>ce_onConfigure = Returns (), ce_savePluginConfig = Returns ()\<rparr>\<rparr>"

definition import_works :: load_env where
  "import_works =
     \<lparr>le_manifest = Returns example_manifest,
      le_import = Returns (DefaultExport (\<lambda>config. Returns (Some example_platform))),
      le_loadPluginConfig = Returns (JObj []),
      le_loadPluginSchema = Returns (JObj []),
      le_start = hooks_return\<rparr>"

definition shutdown_returns :: shutdown_env where
  "shutdown_returns = \<lparr>sh_onShutdown = Returns (), sh_removeAllBridgedDevices = Returns ()\<rparr>"

definition shutdown_throws :: shutdown_env where
  "shutdown_throws = \<lparr>sh_onShutdown = Throws, sh_removeAllBridgedDevices = Returns ()\<rparr>"

definition added_plugin :: plugin where
  "added_plugin = new_plugin example_manifest ''/plugins/matterbridge-example/package.json''"

text \<open>The record after \<open>load\<close> alone, and after load, start and configure.\<close>

definition loaded_plugin :: plugin where
  "loaded_plugin = perform_all added_plugin [Load False [] import_works]"

definition configured_plugin :: plugin where
  "configured_plugin =
     perform_all added_plugin [Load True [] import_works, Configure (se_configure hooks_return)]"

text \<open>
  A file system with a package.json that declares no name in a directory under the
  working directory, and a published package of the same name under the global modules.
\<close>

definition example_files :: resolve_env where
  "example_files =
     \<lparr>path_join = (\<lambda>a b. a @ ''/'' @ b),
      path_resolve = (\<lambda>p. ''/home/user/'' @ p),
      globalModulesDirectory = ''/usr/lib/node_modules'',
      files = (\<lambda>p.
         if p = ''/home/user/matterbridge-example/package.json''
           then Some (Some (example_manifest\<lparr>m_name := None\<rparr>))
         else if p = ''/usr/lib/node_modules/matterbridge-example/package.json''
           then Some (Some example_manifest)
         else None)\<rparr>"

text \<open>A host whose store holds a password, and envelopes as the frontend sends them.\<close>

definition example_host :: host where
  "example_host =
     \<lparr>nodeContext = Some (\<lambda>k. if k = ''password'' then Some (JStr ''secret'') else None),
      spawnCommand = (\<lambda>command args. Resolves (JBool True)),
      settings = Returns (JObj []),
      baseRegisteredPlugins = Returns (JArr []),
      devices = [],
      plugins = (\<lambda>n. None)\<rparr>"

definition request :: "string \<Rightarrow> (string \<times> json) list \<Rightarrow> json" where
  "request m ps =
     JObj [(''id'', JNum 42), (''dst'', JStr ''Matterbridge''), (''src'', JStr ''Frontend''),
           (''method'', JStr m), (''params'', JObj ps)]"

text \<open>An envelope addressed to another host.\<close>

definition misaddressed :: json where
  "misaddressed =
     JObj [(''id'', JNum 42), (''dst'', JStr ''Elsewhere''), (''src'', JStr ''Frontend''),
           (''method'', JStr ''ping''), (''params'', JObj [])]"

section \<open>Properties of the plugin manager\<close>

subsection \<open>The lifecycle calls keep the invariant\<close>

lemma configure_inv: "lifecycle_inv p \<Longrightarrow> lifecycle_inv (fst (snd (configure p env)))"
  by (auto simp: configure_def lifecycle_inv_def Let_def split: outcome.splits)

lemma start_inv: "lifecycle_inv p \<Longrightarrow> lifecycle_inv (fst (snd (start p message cfg env)))"
proof -
  assume inv: "lifecycle_inv p"
  have step: "truthy (loaded p) \<Longrightarrow> platform p \<noteq> None \<Longrightarrow> lifecycle_inv (p\<lparr>started := Some True\<rparr>)"
    using inv by (auto simp: lifecycle_inv_def truthy_def)
  have err: "lifecycle_inv (p\<lparr>error := Some True\<rparr>)"
    using inv by (simp add: lifecycle_inv_def)
  show ?thesis
  proof (cases "truthy (loaded p) \<and> platform p \<noteq> None \<and> \<not> truthy (started p)")
    case False
    then show ?thesis using inv by (auto simp: start_def)
  next
    case True
    show ?thesis
    proof (cases "se_onStart env")
      case Throws
      then show ?thesis using True err by (auto simp: start_def)
    next
      case (Returns u)
      show ?thesis
      proof (cases cfg)
        case False
        then show ?thesis using True Returns step by (auto simp: start_def Let_def)
      next
        case cfgT: True
        have "lifecycle_inv (fst (snd (configure (p\<lparr>started := Some True\<rparr>) (se_configure env))))"
          using step True by (intro configure_inv) simp
        then show ?thesis using True Returns cfgT
          by (auto simp: start_def Let_def split: prod.splits)
      qed
    qed
  qed
qed

lemma shutdown_inv: "lifecycle_inv p \<Longrightarrow> lifecycle_inv (fst (snd (shutdown p reason rm env)))"
  by (auto simp: shutdown_def lifecycle_inv_def Let_def truthy_def split: outcome.splits)

lemma load_failed_inv: "lifecycle_inv p \<Longrightarrow> lifecycle_inv (fst (snd (load_failed p evs)))"
  by (simp add: load_failed_def lifecycle_inv_def)

lemma loaded_inv:
  "platform p = None \<Longrightarrow> lifecycle_inv p \<Longrightarrow>
   lifecycle_inv (p\<lparr>name := a, description := b, version := c, author := d, ptype := e,
      platform := Some pf, loaded := Some True, registeredDevices := f, addedDevices := g,
      configJson := h\<rparr>)"
  by (auto simp: lifecycle_inv_def truthy_def)

lemma schema_inv: "lifecycle_inv p \<Longrightarrow> lifecycle_inv (p\<lparr>schemaJson := x\<rparr>)"
  by (simp add: lifecycle_inv_def)

lemma inv_error: "lifecycle_inv (q\<lparr>error := x\<rparr>) = lifecycle_inv q"
  by (simp add: lifecycle_inv_def)

lemma load_inv: "lifecycle_inv p \<Longrightarrow> lifecycle_inv (fst (snd (load p strt message env)))"
  unfolding load_def Let_def load_failed_def
  by (auto split: outcome.splits option.splits module.splits
        intro!: loaded_inv schema_inv start_inv
        simp: inv_error case_prod_beta)

lemma perform_inv: "lifecycle_inv p \<Longrightarrow> lifecycle_inv (perform p c)"
  by (cases c) (simp_all add: load_inv start_inv configure_inv shutdown_inv)

lemma perform_all_inv: "lifecycle_inv p \<Longrightarrow> lifecycle_inv (perform_all p calls)"
  unfolding perform_all_def
  by (induction calls arbitrary: p) (simp_all add: perform_inv)

lemma new_plugin_inv: "lifecycle_inv (new_plugin packageJson packageJsonPath)"
  by (simp add: new_plugin_def lifecycle_inv_def truthy_def)

lemma saved_record_inv:
  "r \<in> set (fst (snd (saveToStorage reg stored))) \<Longrightarrow> lifecycle_inv r"
  by (cases stored) (auto simp: saveToStorage_def Let_def lifecycle_inv_def truthy_def)

lemmas example_defs =
  example_manifest_def example_platform_def hooks_return_def import_works_def
  shutdown_returns_def shutdown_throws_def added_plugin_def loaded_plugin_def
  configured_plugin_def new_plugin_def perform_all_def

lemma loaded_plugin_eq:
  "loaded_plugin = added_plugin\<lparr>name := Some ''matterbridge-example'',
      description := Some ''No description'', version := Some ''1.0.0'',
      author := Some ''Unknown'', ptype := ''DynamicPlatform'',
      platform := Some \<lparr>pf_type = ''DynamicPlatform'', pf_name = Some ''matterbridge-example'',
                          pf_version = Some ''1.0.0'', pf_config = Some (JObj [])\<rparr>,
      loaded := Some True, registeredDevices := Some 0, addedDevices := Some 0,
      configJson := Some (JObj []), schemaJson := Some (JObj [])\<rparr>"
  by (simp add: example_defs load_def truthy_def Let_def)

lemma configured_plugin_eq:
  "configured_plugin = loaded_plugin\<lparr>started := Some True, configured := Some True\<rparr>"
  by (simp add: example_defs load_def start_def configure_def truthy_def Let_def)

text \<open>
  C1.  Whatever lifecycle calls (load, start, configure, shutdown, with any arguments
  and any behaviour of the plugin's hooks and of the host) are made on a record that
  satisfies the invariant, as a record fresh from \<open>add\<close> does, the record they leave
  has configured only if started, started only if loaded, and none of the three flags
  set while the platform handle is absent.
\<close>

theorem lifecycle_flags_invariant:
  assumes "lifecycle_inv p"
  shows "(truthy (configured (perform_all p calls)) \<longrightarrow> truthy (started (perform_all p calls))) \<and>
         (truthy (started (perform_all p calls)) \<longrightarrow> truthy (loaded (perform_all p calls))) \<and>
         (platform (perform_all p calls) = None \<longrightarrow>
            \<not> truthy (loaded (perform_all p calls)) \<and>
            \<not> truthy (started (perform_all p calls)) \<and>
            \<not> truthy (configured (perform_all p calls)))"
  using perform_all_inv [OF assms, of calls] by (simp add: lifecycle_inv_def)

theorem lifecycle_flags_invariant_witness:
  "lifecycle_inv added_plugin \<and>
   truthy (configured (perform_all added_plugin
      [Load True [] import_works, Configure (se_configure hooks_return)])) \<and>
   truthy (started (perform_all added_plugin
      [Load True [] import_works, Configure (se_configure hooks_return)])) \<and>
   truthy (loaded (perform_all added_plugin
      [Load True [] import_works, Configure (se_configure hooks_return)])) \<and>
   platform (perform_all added_plugin
      [Load True [] import_works, Configure (se_configure hooks_return)]) \<noteq> None"
proof -
  have inv: "lifecycle_inv added_plugin"
    by (simp add: added_plugin_def new_plugin_inv)
  have c: "truthy (configured (perform_all added_plugin
      [Load True [] import_works, Configure (se_configure hooks_return)]))"
    using configured_plugin_eq by (simp add: configured_plugin_def truthy_def)
  show ?thesis
    using lifecycle_flags_invariant [OF inv,
        of "[Load True [] import_works, Configure (se_configure hooks_return)]"] inv c
    by auto
qed


subsection \<open>The guards of shutdown, start and load\<close>

lemma loaded_plugin_flags:
  "truthy (loaded loaded_plugin)" "\<not> truthy (started loaded_plugin)"
  "\<not> truthy (configured loaded_plugin)" "platform loaded_plugin \<noteq> None"
  "name loaded_plugin = Some ''matterbridge-example''"
  by (simp_all add: loaded_plugin_eq truthy_def added_plugin_def new_plugin_def)

lemma configured_plugin_flags:
  "truthy (loaded configured_plugin)" "truthy (started configured_plugin)"
  "truthy (configured configured_plugin)" "platform configured_plugin \<noteq> None"
  "name configured_plugin = Some ''matterbridge-example''"
  "truthy (enabled configured_plugin)"
  by (simp_all add: configured_plugin_eq loaded_plugin_eq truthy_def added_plugin_def new_plugin_def)

text \<open>
  C2, as the specification states it, fails.  The record that \<open>load\<close> alone leaves is
  loaded and not started; with a shutdown hook that would succeed, \<open>shutdown\<close> returns
  an absent result at the guard on \<open>started\<close>: the hook is not called, the flags are not
  cleared and the platform handle stays bound.
\<close>

theorem shutdown_stops_when_not_started:
  "truthy (loaded loaded_plugin) \<and>
   sh_onShutdown shutdown_returns = Returns () \<and>
   shutdown loaded_plugin None False shutdown_returns =
     (None, loaded_plugin,
      [Log Debug ''Shutting down plugin matterbridge-example'',
       Log Debug ''*Plugin matterbridge-example not started'']) \<and>
   \<not> list_ex is_OnShutdown (snd (snd (shutdown loaded_plugin None False shutdown_returns))) \<and>
   truthy (loaded (fst (snd (shutdown loaded_plugin None False shutdown_returns)))) \<and>
   platform (fst (snd (shutdown loaded_plugin None False shutdown_returns))) \<noteq> None"
  by (simp add: shutdown_def loaded_plugin_flags shutdown_returns_def str_def)

text \<open>
  C2, amended.  \<open>shutdown\<close> has four guards: loaded, started, configured and a bound
  platform handle.  When all four hold and the hook returns, the hook has been called
  and the record has its transient flags, its counters and its platform handle
  cleared; the result is that record unless the removal of the devices was asked for
  and threw.  When one of the four fails, the result is absent, the hook is not called
  and the record is unchanged.
\<close>

theorem shutdown_guards:
  "(shutdown_ready p \<and> sh_onShutdown env = Returns () \<longrightarrow>
      OnShutdown reason \<in> set (snd (snd (shutdown p reason removeAllDevices env))) \<and>
      fst (snd (shutdown p reason removeAllDevices env)) =
        p\<lparr>locked := None, error := None, loaded := None, started := None, configured := None,
          connected := None, platform := None, registeredDevices := None, addedDevices := None\<rparr> \<and>
      (\<not> removeAllDevices \<or> sh_removeAllBridgedDevices env = Returns () \<longrightarrow>
         fst (shutdown p reason removeAllDevices env) =
           Some (fst (snd (shutdown p reason removeAllDevices env))))) \<and>
   (\<not> shutdown_ready p \<longrightarrow>
      fst (shutdown p reason removeAllDevices env) = None \<and>
      fst (snd (shutdown p reason removeAllDevices env)) = p \<and>
      \<not> list_ex is_OnShutdown (snd (snd (shutdown p reason removeAllDevices env))))"
  by (auto simp: shutdown_def shutdown_ready_def Let_def split: outcome.splits)

theorem shutdown_guards_witness:
  "shutdown_ready configured_plugin \<and> sh_onShutdown shutdown_returns = Returns () \<and>
   \<not> shutdown_ready loaded_plugin \<and>
   OnShutdown None \<in> set (snd (snd (shutdown configured_plugin None False shutdown_returns))) \<and>
   \<not> truthy (loaded (fst (snd (shutdown configured_plugin None False shutdown_returns)))) \<and>
   platform (fst (snd (shutdown configured_plugin None False shutdown_returns))) = None \<and>
   fst (shutdown configured_plugin None False shutdown_returns) =
     Some (fst (snd (shutdown configured_plugin None False shutdown_returns))) \<and>
   fst (shutdown loaded_plugin None False shutdown_returns) = None \<and>
   fst (snd (shutdown loaded_plugin None False shutdown_returns)) = loaded_plugin"
proof -
  have r: "shutdown_ready configured_plugin"
    by (simp add: shutdown_ready_def configured_plugin_flags)
  have n: "\<not> shutdown_ready loaded_plugin"
    by (simp add: shutdown_ready_def loaded_plugin_flags)
  have h: "sh_onShutdown shutdown_returns = Returns ()"
    by (simp add: shutdown_returns_def)
  show ?thesis
    using shutdown_guards [of configured_plugin shutdown_returns None False]
      shutdown_guards [of loaded_plugin shutdown_returns None False] r n h
    by (simp add: truthy_def)
qed

text \<open>
  C3.  When the platform's shutdown hook throws, \<open>shutdown\<close> returns an absent result
  and the record is the one it was given: no flag, no counter and not the platform
  handle is cleared.  On a record that passes the guards the trace shows the hook
  called and the failure logged.
\<close>

theorem shutdown_hook_throws:
  assumes "sh_onShutdown env = Throws"
  shows "fst (shutdown p reason removeAllDevices env) = None \<and>
         fst (snd (shutdown p reason removeAllDevices env)) = p \<and>
         (shutdown_ready p \<longrightarrow>
            snd (snd (shutdown p reason removeAllDevices env)) =
              [Log Debug (''Shutting down plugin '' @ str (name p)),
               Log Info (''Shutting down plugin '' @ str (name p) @ '': '' @ str reason @ ''...''),
               OnShutdown reason,
               Log Error (''Failed to shut down plugin '' @ str (name p))])"
  using assms by (simp add: shutdown_def shutdown_ready_def)

theorem shutdown_hook_throws_witness:
  "sh_onShutdown shutdown_throws = Throws \<and> shutdown_ready configured_plugin \<and>
   shutdown configured_plugin (Some ''restart'') True shutdown_throws =
     (None, configured_plugin,
      [Log Debug ''Shutting down plugin matterbridge-example'',
       Log Info ''Shutting down plugin matterbridge-example: restart...'',
       OnShutdown (Some ''restart''),
       Log Error ''Failed to shut down plugin matterbridge-example'']) \<and>
   truthy (loaded configured_plugin) \<and> truthy (started configured_plugin) \<and>
   truthy (configured configured_plugin) \<and> platform configured_plugin \<noteq> None"
proof -
  have h: "sh_onShutdown shutdown_throws = Throws"
    by (simp add: shutdown_throws_def)
  have r: "shutdown_ready configured_plugin"
    by (simp add: shutdown_ready_def configured_plugin_flags)
  show ?thesis
    using shutdown_hook_throws [OF h, of configured_plugin "Some ''restart''" True] h r
    by (simp add: prod_eq_iff configured_plugin_flags str_def)
qed

text \<open>
  C4.  \<open>start\<close> on a record with started set returns an absent result, leaves the
  record unchanged and does not call the start hook; on a record that satisfies the
  lifecycle invariant (so that it is loaded and has its platform) the one thing it does
  is to log that the plugin is already started.
\<close>

theorem start_already_started:
  assumes "truthy (started p)"
  shows "fst (start p message cfg env) = None \<and>
         fst (snd (start p message cfg env)) = p \<and>
         \<not> list_ex is_OnStart (snd (snd (start p message cfg env))) \<and>
         (lifecycle_inv p \<longrightarrow>
            snd (snd (start p message cfg env)) =
              [Log Error (''Plugin '' @ str (name p) @ '' already started'')])"
  using assms by (auto simp: start_def lifecycle_inv_def)

theorem start_already_started_witness:
  "truthy (started configured_plugin) \<and> lifecycle_inv configured_plugin \<and>
   start configured_plugin (Some ''again'') True hooks_return =
     (None, configured_plugin, [Log Error ''Plugin matterbridge-example already started''])"
proof -
  have s: "truthy (started configured_plugin)"
    by (simp add: configured_plugin_flags)
  have i: "lifecycle_inv configured_plugin"
    by (simp add: lifecycle_inv_def configured_plugin_flags)
  show ?thesis
    using start_already_started [OF s, of "Some ''again''" True hooks_return] s i
    by (simp add: prod_eq_iff configured_plugin_flags str_def)
qed

text \<open>
  C5.  \<open>load\<close> checks \<open>enabled\<close> first: on a record that is not enabled it returns an
  absent result, and on an enabled record whose platform handle is bound it returns
  that handle.  In both cases the record is unchanged and the trace is the one log
  line: no manifest is read and no module imported.
\<close>

theorem load_guards:
  "(\<not> truthy (enabled p) \<longrightarrow>
      load p strt message env =
        (None, p, [Log Error (''Plugin '' @ str (name p) @ '' not enabled'')])) \<and>
   (truthy (enabled p) \<and> platform p \<noteq> None \<longrightarrow>
      load p strt message env =
        (platform p, p, [Log Error (''Plugin '' @ str (name p) @ '' already loaded'')]))"
  by (simp add: load_def)

theorem load_guards_witness:
  "\<not> truthy (enabled (added_plugin\<lparr>enabled := Some False\<rparr>)) \<and>
   load (added_plugin\<lparr>enabled := Some False\<rparr>) True [] import_works =
     (None, added_plugin\<lparr>enabled := Some False\<rparr>,
      [Log Error ''Plugin matterbridge-example not enabled'']) \<and>
   truthy (enabled configured_plugin) \<and> platform configured_plugin \<noteq> None \<and>
   load configured_plugin True [] import_works =
     (platform configured_plugin, configured_plugin,
      [Log Error ''Plugin matterbridge-example already loaded''])"
proof -
  have d: "\<not> truthy (enabled (added_plugin\<lparr>enabled := Some False\<rparr>))"
    by (simp add: truthy_def)
  have n: "str (name added_plugin) = ''matterbridge-example''"
    by (simp add: added_plugin_def new_plugin_def str_def example_manifest_def)
  have e: "truthy (enabled configured_plugin) \<and> platform configured_plugin \<noteq> None"
    by (simp add: configured_plugin_flags)
  have m: "str (name configured_plugin) = ''matterbridge-example''"
    by (simp add: configured_plugin_flags str_def)
  show ?thesis
    using load_guards [of "added_plugin\<lparr>enabled := Some False\<rparr>" True "[]" import_works]
      load_guards [of configured_plugin True "[]" import_works] d e
    by (simp add: n m)
qed

subsection \<open>saveToStorage\<close>

text \<open>
  C9.  Whatever the registry holds, the array \<open>saveToStorage\<close> hands to the store has
  one record per registry entry, in order, with the entry's name, path, type, version,
  description, author, enabled flag and pairing codes; every record of it lacks the
  lifecycle flags, the counters, the platform handle and the configuration.  When the
  store accepts the array the result is the number of records.
\<close>

theorem saveToStorage_projection:
  "length (fst (snd (saveToStorage reg stored))) = length (array reg) \<and>
   (\<forall>i < length (array reg).
      name (fst (snd (saveToStorage reg stored)) ! i) = name (array reg ! i) \<and>
      path (fst (snd (saveToStorage reg stored)) ! i) = path (array reg ! i) \<and>
      ptype (fst (snd (saveToStorage reg stored)) ! i) = ptype (array reg ! i) \<and>
      version (fst (snd (saveToStorage reg stored)) ! i) = version (array reg ! i) \<and>
      description (fst (snd (saveToStorage reg stored)) ! i) = description (array reg ! i) \<and>
      author (fst (snd (saveToStorage reg stored)) ! i) = author (array reg ! i) \<and>
      enabled (fst (snd (saveToStorage reg stored)) ! i) = enabled (array reg ! i) \<and>
      qrPairingCode (fst (snd (saveToStorage reg stored)) ! i) = qrPairingCode (array reg ! i) \<and>
      manualPairingCode (fst (snd (saveToStorage reg stored)) ! i) = manualPairingCode (array reg ! i)) \<and>
   (\<forall>r \<in> set (fst (snd (saveToStorage reg stored))).
      loaded r = None \<and> started r = None \<and> configured r = None \<and> error r = None \<and>
      connected r = None \<and> locked r = None \<and> registeredDevices r = None \<and>
      addedDevices r = None \<and> platform r = None \<and> configJson r = None \<and> schemaJson r = None) \<and>
   (stored = Returns () \<longrightarrow> fst (saveToStorage reg stored) = Returns (length (array reg)))"
  by (cases stored) (auto simp: saveToStorage_def Let_def)

theorem saveToStorage_projection_witness:
  "array [(''matterbridge-example'', configured_plugin)] = [configured_plugin] \<and>
   truthy (loaded configured_plugin) \<and> platform configured_plugin \<noteq> None \<and>
   loaded (hd (fst (snd (saveToStorage [(''matterbridge-example'', configured_plugin)] (Returns ())))))
     = None \<and>
   platform (hd (fst (snd (saveToStorage [(''matterbridge-example'', configured_plugin)] (Returns ())))))
     = None \<and>
   name (hd (fst (snd (saveToStorage [(''matterbridge-example'', configured_plugin)] (Returns ())))))
     = Some ''matterbridge-example'' \<and>
   fst (saveToStorage [(''matterbridge-example'', configured_plugin)] (Returns ())) = Returns 1"
proof -
  have a: "array [(''matterbridge-example'', configured_plugin)] = [configured_plugin]"
    by (simp add: array_def)
  have l: "length (fst (snd (saveToStorage [(''matterbridge-example'', configured_plugin)] (Returns ())))) = 1"
    using saveToStorage_projection [of "[(''matterbridge-example'', configured_plugin)]" "Returns ()"]
    by (simp add: a)
  then obtain r where r: "fst (snd (saveToStorage [(''matterbridge-example'', configured_plugin)] (Returns ()))) = [r]"
    by (cases "fst (snd (saveToStorage [(''matterbridge-example'', configured_plugin)] (Returns ())))") auto
  show ?thesis
    using saveToStorage_projection [of "[(''matterbridge-example'', configured_plugin)]" "Returns ()"]
    by (simp add: a r configured_plugin_flags)
qed

subsection \<open>resolve\<close>

text \<open>
  C8, as the specification states it, fails.  With a package.json that declares no
  name under the working directory and a published package under the global modules,
  the first candidate that qualifies is the global one, and \<open>resolve\<close> returns null:
  the first candidate can be accessed, so the global one is never tried.
\<close>

theorem resolve_skips_global_modules:
  "qualifies example_files ''/usr/lib/node_modules/matterbridge-example/package.json'' \<and>
   \<not> qualifies example_files ''/home/user/matterbridge-example/package.json'' \<and>
   resolve_spec example_files ''matterbridge-example'' =
     Some ''/usr/lib/node_modules/matterbridge-example/package.json'' \<and>
   fst (resolve example_files ''matterbridge-example'') = None"
  by (simp add: resolve_def resolve_spec_def qualifies_def example_files_def endsWith_def
        no_name_def example_manifest_def Let_def)

text \<open>
  C8, amended.  \<open>resolve\<close> appends the manifest filename when the input does not end
  with it, and tests a single path: the resolved candidate when it can be accessed,
  otherwise the candidate joined under the global modules directory.  It returns that
  path when its manifest can be read and parsed and declares a name, and null
  otherwise.
\<close>

theorem resolve_one_candidate:
  "fst (resolve env nameOrPath) =
     (let candidate = (if endsWith nameOrPath ''package.json'' then nameOrPath
                       else path_join env nameOrPath ''package.json'');
          chosen = (if files env (path_resolve env candidate) \<noteq> None
                    then path_resolve env candidate
                    else path_join env (globalModulesDirectory env) candidate)
      in if qualifies env chosen then Some chosen else None)"
  by (simp add: resolve_def qualifies_def Let_def split: option.splits)

section \<open>Properties of the websocket handler\<close>

subsection \<open>Every method answers with the request's id and method\<close>

lemma echoes_response: "echoes data ((reply data)\<lparr>r_response := Some v\<rparr>)"
  by (simp add: echoes_def reply_def)

lemma echoes_response_more: "echoes data ((reply data)\<lparr>r_response := Some v, r_more := m\<rparr>)"
  by (simp add: echoes_def reply_def)

lemma echoes_error: "echoes data ((reply data)\<lparr>r_error := Some e\<rparr>)"
  by (simp add: echoes_def reply_def)

lemmas echoes_reply = echoes_response echoes_response_more echoes_error

lemma api_login_echoes: "\<forall>r \<in> set (envelopes (api_login host data)). echoes data r"
  by (simp add: api_login_def Let_def echoes_reply split: option.splits)

lemma api_install_echoes: "\<forall>r \<in> set (envelopes (api_install host data)). echoes data r"
  by (simp add: api_install_def spawned_def echoes_reply split: spawn_result.splits)

lemma api_uninstall_echoes: "\<forall>r \<in> set (envelopes (api_uninstall host data)). echoes data r"
  by (simp add: api_uninstall_def spawned_def echoes_reply split: spawn_result.splits)

lemma api_settings_echoes: "\<forall>r \<in> set (envelopes (api_settings host data)). echoes data r"
  by (simp add: api_settings_def caught_def echoes_reply split: outcome.splits)

lemma api_plugins_echoes: "\<forall>r \<in> set (envelopes (api_plugins host data)). echoes data r"
  by (simp add: api_plugins_def caught_def echoes_reply split: outcome.splits)

lemma api_devices_echoes: "\<forall>r \<in> set (envelopes (api_devices host data)). echoes data r"
  by (simp add: api_devices_def Let_def echoes_reply)

lemma api_clusters_echoes: "\<forall>r \<in> set (envelopes (api_clusters host data)). echoes data r"
  by (simp add: api_clusters_def Let_def echoes_reply)

lemma api_select_echoes: "\<forall>r \<in> set (envelopes (api_select host data)). echoes data r"
  by (simp add: api_select_def echoes_reply split: option.splits)

lemma api_select_entities_echoes:
  "\<forall>r \<in> set (envelopes (api_select_entities host data)). echoes data r"
  by (simp add: api_select_entities_def caught_def echoes_reply split: option.splits outcome.splits)

lemmas api_echoes =
  api_login_echoes api_install_echoes api_uninstall_echoes api_settings_echoes
  api_plugins_echoes api_devices_echoes api_clusters_echoes api_select_echoes
  api_select_entities_echoes

lemma handler_valid:
  "data \<noteq> JNull \<Longrightarrow> \<not> invalid_message data \<Longrightarrow>
   wsMessageHandler host (Some data) =
     WsLog Debug ''Received message from websocket client'' #
       (if get_prop data ''method'' = Some (JStr ''ping'') then
               [Send ((reply data)\<lparr>r_response := Some (JStr ''pong'')\<rparr>)]
             else if get_prop data ''method'' = Some (JStr ''/api/login'') then api_login host data
             else if get_prop data ''method'' = Some (JStr ''/api/install'') then api_install host data
             else if get_prop data ''method'' = Some (JStr ''/api/uninstall'') then api_uninstall host data
             else if get_prop data ''method'' = Some (JStr ''/api/restart'') then [RestartProcess]
             else if get_prop data ''method'' = Some (JStr ''/api/shutdown'') then [ShutdownProcess]
             else if get_prop data ''method'' = Some (JStr ''/api/settings'') then api_settings host data
             else if get_prop data ''method'' = Some (JStr ''/api/plugins'') then api_plugins host data
             else if get_prop data ''method'' = Some (JStr ''/api/devices'') then api_devices host data
             else if get_prop data ''method'' = Some (JStr ''/api/clusters'') then api_clusters host data
             else if get_prop data ''method'' = Some (JStr ''/api/select'') then api_select host data
             else if get_prop data ''method'' = Some (JStr ''/api/select/entities'') then
               api_select_entities host data
             else
               [WsLog Error ''Invalid method from websocket client'',
                Send ((reply data)\<lparr>r_error := Some ''Invalid method''\<rparr>)])"
  by (cases data) (simp_all add: wsMessageHandler_def)

lemma invalid_null: "invalid_message JNull"
  by (simp add: invalid_message_def get_prop_def isValidNumber_def)

lemma handler_echoes:
  assumes "\<not> invalid_message data"
  shows "\<forall>r \<in> set (envelopes (wsMessageHandler host (Some data))). echoes data r"
proof -
  have "data \<noteq> JNull" using assms invalid_null by auto
  then show ?thesis
    using api_echoes [of host data]
    by (simp add: handler_valid [OF _ assms] echoes_reply)
qed


lemma null_message_caught: "wsMessageHandler host (Some JNull) = caught"
  by (simp add: wsMessageHandler_def)

lemma unparsable_message_caught: "wsMessageHandler host None = caught"
  by (simp add: wsMessageHandler_def)

lemma request_valid: "m \<noteq> [] \<Longrightarrow> \<not> invalid_message (request m ps)"
  by (simp add: invalid_message_def request_def get_prop_def isValidNumber_def
        isValidString_def isValidObject_def)

lemma request_props:
  "get_prop (request m ps) ''id'' = Some (JNum 42)"
  "get_prop (request m ps) ''method'' = Some (JStr m)"
  "get_prop (request m ps) ''src'' = Some (JStr ''Frontend'')"
  "param (request m ps) k = map_of ps k"
  by (simp_all add: request_def get_prop_def param_def)

text \<open>
  C6.  For an envelope that passes the validation, every envelope the handler sends, at
  once or from the callbacks of a spawned command, has the request's id and method, the
  source Matterbridge, the request's source as destination, and exactly one of a
  response and an error string.  The method ping is answered by one envelope with the
  response pong; a method that is none of the twelve the handler routes is answered by
  one envelope with the error Invalid method.
\<close>

theorem replies_echo_request:
  assumes "\<not> invalid_message data"
  shows "(\<forall>r \<in> set (envelopes (wsMessageHandler host (Some data))).
            r_id r = get_prop data ''id'' \<and> r_method r = get_prop data ''method'' \<and>
            r_src r = ''Matterbridge'' \<and> r_dst r = get_prop data ''src'' \<and>
            (r_response r = None) \<noteq> (r_error r = None)) \<and>
         (get_prop data ''method'' = Some (JStr ''ping'') \<longrightarrow>
            envelopes (wsMessageHandler host (Some data)) =
              [\<lparr>r_id = get_prop data ''id'', r_method = Some (JStr ''ping''),
                r_src = ''Matterbridge'', r_dst = get_prop data ''src'',
                r_response = Some (JStr ''pong''), r_error = None, r_more = []\<rparr>]) \<and>
         ((\<forall>m \<in> set methods. get_prop data ''method'' \<noteq> Some (JStr m)) \<longrightarrow>
            envelopes (wsMessageHandler host (Some data)) =
              [\<lparr>r_id = get_prop data ''id'', r_method = get_prop data ''method'',
                r_src = ''Matterbridge'', r_dst = get_prop data ''src'',
                r_response = None, r_error = Some ''Invalid method'', r_more = []\<rparr>])"
proof -
  have nn: "data \<noteq> JNull" using assms invalid_null by auto
  have a: "\<forall>r \<in> set (envelopes (wsMessageHandler host (Some data))). echoes data r"
    using assms by (rule handler_echoes)
  have b: "get_prop data ''method'' = Some (JStr ''ping'') \<Longrightarrow>
            envelopes (wsMessageHandler host (Some data)) =
              [\<lparr>r_id = get_prop data ''id'', r_method = Some (JStr ''ping''),
                r_src = ''Matterbridge'', r_dst = get_prop data ''src'',
                r_response = Some (JStr ''pong''), r_error = None, r_more = []\<rparr>]"
    by (simp add: handler_valid [OF nn assms] reply_def)
  have c: "(\<forall>m \<in> set methods. get_prop data ''method'' \<noteq> Some (JStr m)) \<Longrightarrow>
            envelopes (wsMessageHandler host (Some data)) =
              [\<lparr>r_id = get_prop data ''id'', r_method = get_prop data ''method'',
                r_src = ''Matterbridge'', r_dst = get_prop data ''src'',
                r_response = None, r_error = Some ''Invalid method'', r_more = []\<rparr>]"
    by (simp add: handler_valid [OF nn assms] reply_def methods_def)
  from a b c show ?thesis unfolding echoes_def by blast
qed

theorem replies_echo_request_witness:
  "\<not> invalid_message (request ''ping'' []) \<and>
   envelopes (wsMessageHandler example_host (Some (request ''ping'' []))) =
     [\<lparr>r_id = Some (JNum 42), r_method = Some (JStr ''ping''), r_src = ''Matterbridge'',
       r_dst = Some (JStr ''Frontend''), r_response = Some (JStr ''pong''), r_error = None,
       r_more = []\<rparr>] \<and>
   \<not> invalid_message (request ''/api/unknown'' []) \<and>
   envelopes (wsMessageHandler example_host (Some (request ''/api/unknown'' []))) =
     [\<lparr>r_id = Some (JNum 42), r_method = Some (JStr ''/api/unknown''), r_src = ''Matterbridge'',
       r_dst = Some (JStr ''Frontend''), r_response = None, r_error = Some ''Invalid method'',
       r_more = []\<rparr>]"
proof -
  have v1: "\<not> invalid_message (request ''ping'' [])" by (simp add: request_valid)
  have v2: "\<not> invalid_message (request ''/api/unknown'' [])" by (simp add: request_valid)
  show ?thesis
    using replies_echo_request [OF v1, of example_host]
      replies_echo_request [OF v2, of example_host] v1 v2
    by (simp add: request_props methods_def)
qed

subsection \<open>Messages that fail the validation\<close>

text \<open>
  A parsed message other than null that fails the validation is logged as invalid and
  answered by one envelope: the id and method the message has (or lacks), the source
  Matterbridge, the message's source as destination, and the error Invalid message.
  This covers a number, a string, an array and an object with missing or wrong fields.
\<close>

lemma invalid_message_reply:
  assumes "data \<noteq> JNull" and "invalid_message data"
  shows "wsMessageHandler host (Some data) =
           [WsLog Error ''Invalid message from websocket client'',
            Send \<lparr>r_id = get_prop data ''id'', r_method = get_prop data ''method'',
                  r_src = ''Matterbridge'', r_dst = get_prop data ''src'',
                  r_response = None, r_error = Some ''Invalid message'', r_more = []\<rparr>]"
  using assms by (cases data) (simp_all add: wsMessageHandler_def reply_def)

lemma misaddressed_reply:
  "invalid_message misaddressed \<and>
   wsMessageHandler example_host (Some misaddressed) =
     [WsLog Error ''Invalid message from websocket client'',
      Send \<lparr>r_id = Some (JNum 42), r_method = Some (JStr ''ping''), r_src = ''Matterbridge'',
            r_dst = Some (JStr ''Frontend''), r_response = None,
            r_error = Some ''Invalid message'', r_more = []\<rparr>]"
proof -
  have n: "misaddressed \<noteq> JNull" by (simp add: misaddressed_def)
  have i: "invalid_message misaddressed"
    by (simp add: invalid_message_def misaddressed_def get_prop_def)
  show ?thesis
    using invalid_message_reply [OF n i, of example_host] i
    by (simp add: misaddressed_def get_prop_def)
qed

text \<open>Among the parsed messages that fail the validation, null alone is left unanswered.\<close>

lemma unanswered_only_null:
  assumes "invalid_message data"
  shows "(envelopes (wsMessageHandler host (Some data)) = []) = (data = JNull)"
proof (cases "data = JNull")
  case True
  then show ?thesis by (simp add: null_message_caught caught_def)
next
  case False
  then show ?thesis by (simp add: invalid_message_reply [OF False assms])
qed

text \<open>
  C7 fails on the message null.  It parses, and it fails the validation: it has no id,
  no source, no destination, no method and no parameters.  Reading its id throws, the
  catch block logs the error as a parsing error, and the handler returns without
  sending an envelope, where the claim asks for one error envelope.  Nothing is thrown
  out of the handler.
\<close>

theorem null_message_unanswered:
  "invalid_message JNull \<and>
   wsMessageHandler host (Some JNull) =
     [WsLog Error ''Error parsing message from websocket client:''] \<and>
   envelopes (wsMessageHandler host (Some JNull)) = []"
  by (simp add: invalid_null null_message_caught caught_def)

theorem null_message_unanswered_witness:
  "invalid_message JNull \<and>
   envelopes (wsMessageHandler example_host (Some JNull)) = [] \<and>
   envelopes (wsMessageHandler example_host (Some (JNum 42))) =
     [\<lparr>r_id = None, r_method = None, r_src = ''Matterbridge'', r_dst = None,
       r_response = None, r_error = Some ''Invalid message'', r_more = []\<rparr>]"
proof -
  have i: "invalid_message (JNum 42)"
    by (simp add: invalid_message_def get_prop_def isValidNumber_def)
  have "wsMessageHandler example_host (Some (JNum 42)) =
           [WsLog Error ''Invalid message from websocket client'',
            Send \<lparr>r_id = None, r_method = None, r_src = ''Matterbridge'', r_dst = None,
                  r_response = None, r_error = Some ''Invalid message'', r_more = []\<rparr>]"
    using invalid_message_reply [OF _ i, of example_host] by (simp add: get_prop_def)
  then show ?thesis
    using null_message_unanswered [of example_host] by simp
qed

subsection \<open>Login\<close>

lemma strict_eq_string: "strict_eq (Some (JStr t)) v = (v = Some (JStr t))"
  by (auto simp: strict_eq_def split: option.splits json.splits)

text \<open>
  C10.  For a valid envelope with the method /api/login and a host with a node context:
  when the stored password is the empty string (or none is stored) the one envelope
  sent has the response valid, whatever the parameters are; otherwise it has the
  response valid when the password parameter is strictly equal to the stored password,
  and the error Wrong password when it is not.  For a stored string that is the case
  exactly when the parameter is that string.
\<close>

theorem login_reply:
  assumes "\<not> invalid_message data"
    and "get_prop data ''method'' = Some (JStr ''/api/login'')"
    and "nodeContext host = Some ctx"
  shows "(nodeContext_get ctx ''password'' (JStr []) = JStr [] \<longrightarrow>
            envelopes (wsMessageHandler host (Some data)) =
              [\<lparr>r_id = get_prop data ''id'', r_method = get_prop data ''method'',
                 r_src = ''Matterbridge'', r_dst = get_prop data ''src'',
                 r_response = Some (JObj [(''valid'', JBool True)]), r_error = None,
                 r_more = []\<rparr>]) \<and>
         (nodeContext_get ctx ''password'' (JStr []) \<noteq> JStr [] \<longrightarrow>
            envelopes (wsMessageHandler host (Some data)) =
              [if strict_eq (Some (nodeContext_get ctx ''password'' (JStr [])))
                    (param data ''password'')
               then \<lparr>r_id = get_prop data ''id'', r_method = get_prop data ''method'',
                 r_src = ''Matterbridge'', r_dst = get_prop data ''src'',
                 r_response = Some (JObj [(''valid'', JBool True)]), r_error = None,
                 r_more = []\<rparr>
               else \<lparr>r_id = get_prop data ''id'', r_method = get_prop data ''method'',
                 r_src = ''Matterbridge'', r_dst = get_prop data ''src'',
                 r_response = None, r_error = Some ''Wrong password'', r_more = []\<rparr>]) \<and>
         (\<forall>t. t \<noteq> [] \<and> ctx ''password'' = Some (JStr t) \<longrightarrow>
            envelopes (wsMessageHandler host (Some data)) =
              [if param data ''password'' = Some (JStr t)
               then \<lparr>r_id = get_prop data ''id'', r_method = get_prop data ''method'',
                 r_src = ''Matterbridge'', r_dst = get_prop data ''src'',
                 r_response = Some (JObj [(''valid'', JBool True)]), r_error = None,
                 r_more = []\<rparr>
               else \<lparr>r_id = get_prop data ''id'', r_method = get_prop data ''method'',
                 r_src = ''Matterbridge'', r_dst = get_prop data ''src'',
                 r_response = None, r_error = Some ''Wrong password'', r_more = []\<rparr>])"
proof -
  have nn: "data \<noteq> JNull" using assms(1) invalid_null by auto
  have h: "wsMessageHandler host (Some data) =
      WsLog Debug ''Received message from websocket client'' # api_login host data"
    by (simp add: handler_valid [OF nn assms(1)] assms(2))
  show ?thesis
    by (simp add: h api_login_def assms(3) Let_def nodeContext_get_def strict_eq_string reply_def)
qed

theorem login_reply_witness:
  "\<not> invalid_message (request ''/api/login'' [(''password'', JStr ''secret'')]) \<and>
   \<not> invalid_message (request ''/api/login'' [(''password'', JStr ''guess'')]) \<and>
   \<not> invalid_message (request ''/api/login'' []) \<and>
   envelopes (wsMessageHandler example_host
       (Some (request ''/api/login'' [(''password'', JStr ''secret'')]))) =
     [\<lparr>r_id = Some (JNum 42), r_method = Some (JStr ''/api/login''), r_src = ''Matterbridge'',
       r_dst = Some (JStr ''Frontend''), r_response = Some (JObj [(''valid'', JBool True)]),
       r_error = None, r_more = []\<rparr>] \<and>
   envelopes (wsMessageHandler example_host
       (Some (request ''/api/login'' [(''password'', JStr ''guess'')]))) =
     [\<lparr>r_id = Some (JNum 42), r_method = Some (JStr ''/api/login''), r_src = ''Matterbridge'',
       r_dst = Some (JStr ''Frontend''), r_response = None,
       r_error = Some ''Wrong password'', r_more = []\<rparr>] \<and>
   envelopes (wsMessageHandler (example_host\<lparr>nodeContext := Some (\<lambda>k. None)\<rparr>)
       (Some (request ''/api/login'' []))) =
     [\<lparr>r_id = Some (JNum 42), r_method = Some (JStr ''/api/login''), r_src = ''Matterbridge'',
       r_dst = Some (JStr ''Frontend''), r_response = Some (JObj [(''valid'', JBool True)]),
       r_error = None, r_more = []\<rparr>]"
proof -
  have v: "\<And>ps. \<not> invalid_message (request ''/api/login'' ps)" by (simp add: request_valid)
  have m: "\<And>ps. get_prop (request ''/api/login'' ps) ''method'' = Some (JStr ''/api/login'')"
    by (simp add: request_props)
  have c1: "nodeContext example_host =
      Some (\<lambda>k. if k = ''password'' then Some (JStr ''secret'') else None)"
    by (simp add: example_host_def)
  have c2: "nodeContext (example_host\<lparr>nodeContext := Some (\<lambda>k. None)\<rparr>) = Some (\<lambda>k. None)"
    by simp
  show ?thesis
    using login_reply [OF v [of "[(''password'', JStr ''secret'')]"] m c1]
      login_reply [OF v [of "[(''password'', JStr ''guess'')]"] m c1]
      login_reply [OF v [of "[]"] m c2] v
    by (simp add: request_props nodeContext_get_def strict_eq_string)
qed

end
